theory Spec2Isabelle
  imports Main "HOL-Library.Sublist"
begin

section \<open>Python values used by \<^verbatim>\<open>bedrock-demo.py\<close>\<close>

text \<open>
  Strings are ASCII strings (\<open>socket.gethostbyname\<close> returns the text of an IPv4 address),
  integers are unbounded. An exception is a value: every function that can raise returns
  \<open>exn + 'a\<close>, with \<open>Inl\<close> for the exception. Only subclasses of \<open>Exception\<close> are
  modelled, which is what the \<open>except Exception\<close> clauses of the source catch.

  \<^item> \<open>ClientError\<close> is \<open>botocore.exceptions.ClientError\<close>; its argument is the value of
    \<open>e.response.get('Error')\<close>: \<open>None\<close> when the response has no \<open>'Error'\<close> key, otherwise
    the entries of that dictionary.
  \<^item> \<open>KeyError k\<close> is raised by a subscript \<open>d[k]\<close> on a dictionary without the key \<open>k\<close>.
  \<^item> \<open>ValueError s\<close> is raised by \<open>int(s)\<close> on a string that is no decimal literal.
  \<^item> \<open>IndexError\<close> is raised by a list subscript out of range.
  \<^item> \<open>OtherException n\<close> stands for any other exception, of class name \<open>n\<close>
    (\<open>socket.gaierror\<close>, \<open>TimeoutError\<close>, whatever the SDK raises).
\<close>

datatype exn =
    ClientError "(string \<times> string) list option"
  | KeyError string
  | ValueError string
  | IndexError
  | OtherException string

text \<open>
  The logger. A call \<open>logger.info(f"...")\<close> appends one entry. A message whose text ends with
  \<open>{str(e)}\<close> is kept as the literal text and the exception, since the rendering of an
  exception belongs to its class.
\<close>

datatype level = INFO | WARNING | ERROR

datatype message = Text string | TextExn string exn

type_synonym log = "(level \<times> message) list"

subsection \<open>String operations\<close>

definition startswith :: "string \<Rightarrow> string \<Rightarrow> bool" where
  "startswith s p = (take (length p) s = p)"

text \<open>\<open>s.split(sep)\<close> for a separator of one character: every occurrence splits.\<close>

fun split_from :: "char \<Rightarrow> string \<Rightarrow> string \<Rightarrow> string list" where
  "split_from sep cur [] = [cur]"
| "split_from sep cur (c # cs) =
     (if c = sep then cur # split_from sep [] cs else split_from sep (cur @ [c]) cs)"

definition py_split :: "string \<Rightarrow> char \<Rightarrow> string list" where
  "py_split s sep = split_from sep [] s"

definition subscript :: "'a list \<Rightarrow> nat \<Rightarrow> exn + 'a" where
  "subscript xs i = (if i < length xs then Inr (xs ! i) else Inl IndexError)"

text \<open>
  \<open>int(s)\<close> on an ASCII string, base 10: white space around the literal is dropped (the
  space and the characters 0x09 to 0x0D, no other), one sign may lead, the digits may have
  leading zeros and single underscores between two digits. Anything else raises
  \<open>ValueError\<close>, and so does a literal of more than 4300 digits, leading zeros counted:
  the default limit of CPython from 3.11 on (\<open>sys.set_int_max_str_digits\<close>).
\<close>

definition is_space :: "char \<Rightarrow> bool" where
  "is_space c = (c \<in> set [CHR '' '', CHR 0x09, CHR 0x0A, CHR 0x0B, CHR 0x0C, CHR 0x0D])"

definition is_digit :: "char \<Rightarrow> bool" where
  "is_digit c = (c \<in> set ''0123456789'')"

definition digit_val :: "char \<Rightarrow> int" where
  "digit_val c = int (of_char c) - 48"

definition strip :: "string \<Rightarrow> string" where
  "strip s = rev (dropWhile is_space (rev (dropWhile is_space s)))"

fun int_digits :: "int \<Rightarrow> string \<Rightarrow> int option" where
  "int_digits acc [] = Some acc"
| "int_digits acc [c] = (if is_digit c then Some (10 * acc + digit_val c) else None)"
| "int_digits acc (c # d # ds) =
     (if is_digit c then int_digits (10 * acc + digit_val c) (d # ds)
      else if c = CHR ''_'' \<and> is_digit d then int_digits (10 * acc + digit_val d) ds
      else None)"

definition int_unsigned :: "string \<Rightarrow> int option" where
  "int_unsigned s =
     (case s of
        [] \<Rightarrow> None
      | c # cs \<Rightarrow> if is_digit c then int_digits (digit_val c) cs else None)"

definition int_max_str_digits :: nat where
  "int_max_str_digits = 4300"

definition py_int :: "string \<Rightarrow> exn + int" where
  "py_int s =
     (let t = strip s;
          r = (case t of
                 [] \<Rightarrow> None
               | c # cs \<Rightarrow>
                   if c = CHR ''-'' then map_option uminus (int_unsigned cs)
                   else if c = CHR ''+'' then int_unsigned cs
                   else int_unsigned t)
      in case r of
           None \<Rightarrow> Inl (ValueError s)
         | Some n \<Rightarrow>
             if int_max_str_digits < length (filter is_digit t) then Inl (ValueError s)
             else Inr n)"

text \<open>\<open>any(xs)\<close> on a list of booleans that has been built already.\<close>

definition any :: "bool list \<Rightarrow> bool" where
  "any xs = list_ex (\<lambda>b. b) xs"

section \<open>The outside world\<close>

text \<open>
  The functions of the standard library and of the SDK that the program calls are
  parameters of the model: each is a function of its arguments that returns or raises.
  \<open>'cfg\<close>, \<open>'cl\<close> and \<open>'pg\<close> are the SDK's configuration objects, clients and paginators.
  A paginator yields finitely many pages, one fetch each; a fetch can fail, which ends the
  iteration, so the pages are a list of outcomes of which nothing after the first failure
  is ever reached.

  The service's answers are parsed by the SDK against the service's declared shapes, so
  a field that is present has its declared type; any field may be absent.
\<close>

record lifecycle =
  status :: "string option"

record model_summary =
  modelId :: "string option"
  providerName :: "string option"
  modelLifecycle :: "lifecycle option"
  inputModalities :: "string list option"
  outputModalities :: "string list option"

record page =
  modelSummaries :: "model_summary list option"

record retries_kwargs =
  max_attempts :: int
  mode :: string

record config_kwargs =
  region_name :: string
  retries :: retries_kwargs
  connect_timeout :: int
  read_timeout :: int
  endpoint_url :: string

record ('cfg, 'cl, 'pg) world =
  socket_gethostbyname :: "string \<Rightarrow> exn + string"
  botocore_Config :: "config_kwargs \<Rightarrow> exn + 'cfg"
  boto3_client :: "string \<Rightarrow> 'cfg \<Rightarrow> exn + 'cl"
  client_get_paginator :: "'cl \<Rightarrow> string \<Rightarrow> exn + 'pg"
  paginator_paginate :: "'pg \<Rightarrow> (exn + page) list"

section \<open>\<^verbatim>\<open>verify_private_connection\<close>\<close>

definition bedrock_endpoint :: string where
  "bedrock_endpoint = ''bedrock.us-east-1.amazonaws.com''"

text \<open>
  The list handed to \<open>any\<close> is built first, so its three elements are evaluated in order,
  and the second one raises when the text after the first dot is no integer literal.
\<close>

definition second_octet_in_range :: "string \<Rightarrow> exn + bool" where
  "second_octet_in_range endpoint_ip =
     (if startswith endpoint_ip ''172.'' then
        (case subscript (py_split endpoint_ip CHR ''.'') 1 of
           Inl e \<Rightarrow> Inl e
         | Inr s \<Rightarrow>
             (case py_int s of
                Inl e \<Rightarrow> Inl e
              | Inr n \<Rightarrow> Inr (16 \<le> n \<and> n \<le> 31)))
      else Inr False)"

definition is_private_ip :: "string \<Rightarrow> exn + bool" where
  "is_private_ip endpoint_ip =
     (let a = startswith endpoint_ip ''10.'' in
      case second_octet_in_range endpoint_ip of
        Inl e \<Rightarrow> Inl e
      | Inr b \<Rightarrow>
          (let c = startswith endpoint_ip ''192.0.'' in Inr (any [a, b, c])))"

text \<open>The body of the \<open>try\<close>: the log it wrote, and its return value or exception.\<close>

definition verify_private_connection_try ::
  "('cfg, 'cl, 'pg) world \<Rightarrow> log \<times> (exn + bool)" where
  "verify_private_connection_try w =
     (case socket_gethostbyname w bedrock_endpoint of
        Inl e \<Rightarrow> ([], Inl e)
      | Inr endpoint_ip \<Rightarrow>
          (case is_private_ip endpoint_ip of
             Inl e \<Rightarrow> ([], Inl e)
           | Inr is_private \<Rightarrow>
               (if is_private then
                  [(INFO, Text (''Verified private connection. Endpoint '' @ bedrock_endpoint
                                  @ '' resolved to private IP: '' @ endpoint_ip))]
                else
                  [(WARNING, Text (''Public IP detected: '' @ endpoint_ip
                                  @ ''. Traffic might not be using VPC endpoints!''))],
                Inr is_private)))"

definition verify_private_connection ::
  "('cfg, 'cl, 'pg) world \<Rightarrow> log \<times> (exn + bool)" where
  "verify_private_connection w =
     (case verify_private_connection_try w of
        (l, Inr is_private) \<Rightarrow> (l, Inr is_private)
      | (l, Inl e) \<Rightarrow>
          (l @ [(ERROR, TextExn ''Error verifying private connection: '' e)], Inr False))"

section \<open>\<^verbatim>\<open>get_bedrock_client\<close>\<close>

text \<open>The keyword arguments of the call \<open>Config(...)\<close>.\<close>

definition config_arguments :: "string \<Rightarrow> config_kwargs" where
  "config_arguments region =
     \<lparr>region_name = region,
      retries = \<lparr>max_attempts = 3, mode = ''standard''\<rparr>,
      connect_timeout = 5,
      read_timeout = 10,
      endpoint_url = ''https://bedrock.'' @ region @ ''.amazonaws.com''\<rparr>"

definition get_bedrock_client_try ::
  "('cfg, 'cl, 'pg) world \<Rightarrow> string \<Rightarrow> log \<times> (exn + 'cl)" where
  "get_bedrock_client_try w region =
     (case verify_private_connection w of
        (l, Inl e) \<Rightarrow> (l, Inl e)
      | (l, Inr is_private) \<Rightarrow>
          (let l' = l @ (if \<not> is_private
                         then [(WARNING, Text ''Traffic might be flowing over public internet!'')]
                         else [])
           in case botocore_Config w (config_arguments region) of
                Inl e \<Rightarrow> (l', Inl e)
              | Inr config \<Rightarrow>
                  (case boto3_client w ''bedrock'' config of
                     Inl e \<Rightarrow> (l', Inl e)
                   | Inr bedrock_client \<Rightarrow> (l', Inr bedrock_client))))"

text \<open>The argument is \<open>None\<close> when the caller leaves \<open>region_name\<close> out.\<close>

definition get_bedrock_client ::
  "('cfg, 'cl, 'pg) world \<Rightarrow> string option \<Rightarrow> log \<times> (exn + 'cl)" where
  "get_bedrock_client w region_name_arg =
     (let region = (case region_name_arg of None \<Rightarrow> ''us-east-1'' | Some r \<Rightarrow> r)
      in case get_bedrock_client_try w region of
           (l, Inr bedrock_client) \<Rightarrow> (l, Inr bedrock_client)
         | (l, Inl e) \<Rightarrow> (l @ [(ERROR, TextExn ''Error creating Bedrock client: '' e)], Inl e))"

section \<open>\<^verbatim>\<open>list_foundation_models\<close>\<close>

text \<open>The dictionary appended to \<open>enabled_models\<close>.\<close>

record enabled_model =
  modelId :: string
  provider :: string
  inputModalities :: "string list"
  outputModalities :: "string list"

text \<open>\<open>model.get('modelLifecycle', {}).get('status') == 'ACTIVE'\<close>\<close>

definition lifecycle_is_active :: "model_summary \<Rightarrow> bool" where
  "lifecycle_is_active model =
     (let lc = (case modelLifecycle model of None \<Rightarrow> \<lparr>status = None\<rparr> | Some d \<Rightarrow> d)
      in status lc = Some ''ACTIVE'')"

text \<open>
  The dictionary display: \<open>model['modelId']\<close> and \<open>model['providerName']\<close> raise on a
  missing key, in this order; the two \<open>get\<close>s have a default.
\<close>

definition enabled_entry :: "model_summary \<Rightarrow> exn + enabled_model" where
  "enabled_entry model =
     (case model_summary.modelId model of
        None \<Rightarrow> Inl (KeyError ''modelId'')
      | Some mid \<Rightarrow>
          (case providerName model of
             None \<Rightarrow> Inl (KeyError ''providerName'')
           | Some prov \<Rightarrow>
               Inr \<lparr>modelId = mid,
                    provider = prov,
                    inputModalities =
                      (case model_summary.inputModalities model of None \<Rightarrow> [] | Some xs \<Rightarrow> xs),
                    outputModalities =
                      (case model_summary.outputModalities model of None \<Rightarrow> [] | Some xs \<Rightarrow> xs)\<rparr>))"

text \<open>The inner loop, over the models of one page.\<close>

fun for_model :: "enabled_model list \<Rightarrow> model_summary list \<Rightarrow> exn + enabled_model list" where
  "for_model enabled_models [] = Inr enabled_models"
| "for_model enabled_models (model # rest) =
     (if lifecycle_is_active model then
        (case enabled_entry model of
           Inl e \<Rightarrow> Inl e
         | Inr d \<Rightarrow> for_model (enabled_models @ [d]) rest)
      else for_model enabled_models rest)"

text \<open>The outer loop, over the pages; \<open>page['modelSummaries']\<close> raises on a missing key.\<close>

fun for_page :: "enabled_model list \<Rightarrow> (exn + page) list \<Rightarrow> exn + enabled_model list" where
  "for_page enabled_models [] = Inr enabled_models"
| "for_page enabled_models (Inl e # rest) = Inl e"
| "for_page enabled_models (Inr p # rest) =
     (case modelSummaries p of
        None \<Rightarrow> Inl (KeyError ''modelSummaries'')
      | Some models \<Rightarrow>
          (case for_model enabled_models models of
             Inl e \<Rightarrow> Inl e
           | Inr enabled_models' \<Rightarrow> for_page enabled_models' rest))"

definition list_foundation_models_try ::
  "('cfg, 'cl, 'pg) world \<Rightarrow> log \<times> (exn + enabled_model list)" where
  "list_foundation_models_try w =
     (case get_bedrock_client w None of
        (l, Inl e) \<Rightarrow> (l, Inl e)
      | (l, Inr client) \<Rightarrow>
          (case client_get_paginator w client ''list_foundation_models'' of
             Inl e \<Rightarrow> (l, Inl e)
           | Inr paginator \<Rightarrow> (l, for_page [] (paginator_paginate w paginator))))"

text \<open>
  The handlers. The first reads \<open>e.response['Error']['Code']\<close> and
  \<open>e.response['Error']['Message']\<close> by subscript before it logs; a \<open>KeyError\<close> there
  leaves the handler in place of \<open>e\<close>.
\<close>

definition except_ClientError ::
  "log \<Rightarrow> (string \<times> string) list option \<Rightarrow> log \<times> (exn + enabled_model list)" where
  "except_ClientError l response_Error =
     (case response_Error of
        None \<Rightarrow> (l, Inl (KeyError ''Error''))
      | Some err \<Rightarrow>
          (case map_of err ''Code'' of
             None \<Rightarrow> (l, Inl (KeyError ''Code''))
           | Some error_code \<Rightarrow>
               (case map_of err ''Message'' of
                  None \<Rightarrow> (l, Inl (KeyError ''Message''))
                | Some error_message \<Rightarrow>
                    (l @ [(ERROR, Text (''AWS Error: '' @ error_code @ '' - '' @ error_message))],
                     Inl (ClientError response_Error)))))"

definition list_foundation_models ::
  "('cfg, 'cl, 'pg) world \<Rightarrow> log \<times> (exn + enabled_model list)" where
  "list_foundation_models w =
     (case list_foundation_models_try w of
        (l, Inr enabled_models) \<Rightarrow> (l, Inr enabled_models)
      | (l, Inl (ClientError response_Error)) \<Rightarrow> except_ClientError l response_Error
      | (l, Inl e) \<Rightarrow> (l @ [(ERROR, TextExn ''Unexpected error: '' e)], Inl e))"

section \<open>Notions of the specification\<close>

text \<open>
  A dotted quad is four octets joined by dots; an octet is one to three decimal digits of
  value at most 255, and \<open>decimal_value\<close> reads it.
\<close>

definition decimal_value :: "string \<Rightarrow> int" where
  "decimal_value s = foldl (\<lambda>n c. 10 * n + digit_val c) 0 s"

definition is_octet :: "string \<Rightarrow> bool" where
  "is_octet s = (s \<noteq> [] \<and> length s \<le> 3 \<and> list_all is_digit s \<and> decimal_value s \<le> 255)"

text \<open>
  A stub of the outside world: the resolver answers \<open>dns\<close>, the SDK accepts every
  configuration, a client is its service name and configuration, and the paginator
  yields \<open>pages\<close>.
\<close>

definition stub_world ::
  "(exn + string) \<Rightarrow> (exn + page) list \<Rightarrow> (config_kwargs, string \<times> config_kwargs, string) world" where
  "stub_world dns pages =
     \<lparr>socket_gethostbyname = (\<lambda>host. dns),
      botocore_Config = Inr,
      boto3_client = (\<lambda>service_name config. Inr (service_name, config)),
      client_get_paginator = (\<lambda>client operation. Inr operation),
      paginator_paginate = (\<lambda>paginator. pages)\<rparr>"

text \<open>
  The SDK's own \<open>botocore.config.Config\<close> takes its options by keyword and raises
  \<open>TypeError\<close> on a keyword that is not in its table \<open>OPTION_DEFAULTS\<close>. The table
  belongs to the SDK; these are its entries. The endpoint URL is not among them: it is the
  parameter \<open>endpoint_url\<close> of \<open>boto3.client\<close>.
\<close>

definition OPTION_DEFAULTS :: "string list" where
  "OPTION_DEFAULTS =
     [''region_name'', ''signature_version'', ''user_agent'', ''user_agent_extra'',
      ''user_agent_appid'', ''connect_timeout'', ''read_timeout'', ''parameter_validation'',
      ''max_pool_connections'', ''proxies'', ''proxies_config'', ''s3'', ''retries'',
      ''client_cert'', ''inject_host_prefix'', ''endpoint_discovery_enabled'',
      ''use_dualstack_endpoint'', ''use_fips_endpoint'', ''ignore_configured_endpoint_urls'',
      ''defaults_mode'', ''tcp_keepalive'', ''request_min_compression_size_bytes'',
      ''disable_request_compression'', ''client_context_params'', ''sigv4a_signing_region_set'',
      ''request_checksum_calculation'', ''response_checksum_validation'',
      ''account_id_endpoint_mode'', ''auth_scheme_preference'']"

text \<open>The keywords of the call \<open>Config(...)\<close> in \<open>get_bedrock_client\<close>, in their order.\<close>

definition config_keywords :: "string list" where
  "config_keywords =
     [''region_name'', ''retries'', ''connect_timeout'', ''read_timeout'', ''endpoint_url'']"

definition Config_init :: "config_kwargs \<Rightarrow> exn + config_kwargs" where
  "Config_init kwargs =
     (case filter (\<lambda>key. key \<notin> set OPTION_DEFAULTS) config_keywords of
        [] \<Rightarrow> Inr kwargs
      | key # rest \<Rightarrow> Inl (OtherException ''TypeError''))"

text \<open>The stub of the outside world in which \<open>Config\<close> is the SDK's.\<close>

definition sdk_world ::
  "(exn + string) \<Rightarrow> (exn + page) list \<Rightarrow> (config_kwargs, string \<times> config_kwargs, string) world" where
  "sdk_world dns pages = (stub_world dns pages)\<lparr>botocore_Config := Config_init\<rparr>"

text \<open>
  The lifecycle status of a model entry, absent when the entry has no \<open>modelLifecycle\<close> or
  that has no \<open>status\<close>.
\<close>

definition lifecycle_status :: "model_summary \<Rightarrow> string option" where
  "lifecycle_status m = (case modelLifecycle m of None \<Rightarrow> None | Some lc \<Rightarrow> status lc)"

text \<open>
  The model entries of the pages, in the order of the pagination; a page is fetched when
  its fetch returned and it carries \<open>modelSummaries\<close>.
\<close>

fun page_models :: "exn + page \<Rightarrow> model_summary list" where
  "page_models (Inl e) = []"
| "page_models (Inr p) = (case modelSummaries p of None \<Rightarrow> [] | Some models \<Rightarrow> models)"

definition all_models :: "(exn + page) list \<Rightarrow> model_summary list" where
  "all_models pages = concat (map page_models pages)"

fun page_fetched :: "exn + page \<Rightarrow> bool" where
  "page_fetched (Inl e) = False"
| "page_fetched (Inr p) = (modelSummaries p \<noteq> None)"

text \<open>
  The outcomes of the page fetches of one run: those of the paginator of the client the
  factory returns, if there is one.
\<close>

definition listed_pages :: "('cfg, 'cl, 'pg) world \<Rightarrow> (exn + page) list option" where
  "listed_pages w =
     (case snd (get_bedrock_client w None) of
        Inl e \<Rightarrow> None
      | Inr client \<Rightarrow>
          (case client_get_paginator w client ''list_foundation_models'' of
             Inl e \<Rightarrow> None
           | Inr paginator \<Rightarrow> Some (paginator_paginate w paginator)))"

text \<open>A stub model entry that carries its identifiers and a status and omits the modalities.\<close>

definition model_entry :: "string \<Rightarrow> string \<Rightarrow> string \<Rightarrow> model_summary" where
  "model_entry mid prov st =
     \<lparr>model_summary.modelId = Some mid,
      providerName = Some prov,
      modelLifecycle = Some \<lparr>status = Some st\<rparr>,
      model_summary.inputModalities = None,
      model_summary.outputModalities = None\<rparr>"

section \<open>The connectivity check\<close>

lemma startswith_prefix: "startswith s p = prefix p s"
  unfolding startswith_def 
  by (metis append_eq_conv_conj prefix_def)

lemma split_from_sep:
  "sep \<notin> set a \<Longrightarrow> split_from sep cur (a @ sep # rest) = (cur @ a) # split_from sep [] rest"
  by (induction a arbitrary: cur) auto

lemma is_digit_not_space: "is_digit c \<Longrightarrow> \<not> is_space c"
  by (auto simp: is_digit_def is_space_def)

lemma is_digit_not_sign: "is_digit c \<Longrightarrow> c \<noteq> CHR ''-'' \<and> c \<noteq> CHR ''+'' \<and> c \<noteq> CHR ''.''"
  by (auto simp: is_digit_def)

lemma int_digits_all:
  "list_all is_digit ds \<Longrightarrow> int_digits acc ds = Some (foldl (\<lambda>n c. 10 * n + digit_val c) acc ds)"
  by (induction acc ds rule: int_digits.induct) auto

lemma strip_digits:
  assumes "list_all is_digit s"
  shows "strip s = s"
proof (cases s rule: rev_cases)
  case Nil
  then show ?thesis by (simp add: strip_def)
next
  case (snoc ys y)
  show ?thesis
  proof (cases s)
    case Nil
    then show ?thesis by (simp add: strip_def)
  next
    case (Cons x xs)
    with assms have "\<not> is_space x" by (simp add: is_digit_not_space)
    then have 1: "dropWhile is_space s = s" using Cons by simp
    from snoc assms have "\<not> is_space y" by (simp add: is_digit_not_space)
    then have "dropWhile is_space (rev s) = rev s" using snoc by simp
    with 1 show ?thesis by (simp add: strip_def)
  qed
qed

lemma py_int_digits:
  assumes "s \<noteq> []" "list_all is_digit s" "length s \<le> int_max_str_digits"
  shows "py_int s = Inr (decimal_value s)"
proof -
  obtain c cs where s: "s = c # cs" using assms(1) by (cases s) auto
  with assms(2) have c: "is_digit c" and cs: "list_all is_digit cs" by auto
  have "int_unsigned s = Some (decimal_value s)"
    using c cs by (simp add: s int_unsigned_def int_digits_all decimal_value_def)
  moreover have "strip s = c # cs"
    using strip_digits[OF assms(2)] s by simp
  moreover have "\<not> int_max_str_digits < length (filter is_digit (c # cs))"
  proof -
    have "length (filter is_digit s) \<le> length s" by (rule length_filter_le)
    with assms(3) have "length (filter is_digit s) \<le> int_max_str_digits" by linarith
    then show ?thesis unfolding s by (simp only: not_less)
  qed
  ultimately show ?thesis
    using is_digit_not_sign[OF c] unfolding py_int_def by (simp add: s del: filter.simps)
qed

lemma octet_no_dot: "is_octet a \<Longrightarrow> CHR ''.'' \<notin> set a"
  using is_digit_not_sign by (auto simp: is_octet_def list_all_iff)

lemma second_octet_quad:
  assumes "is_octet a" "is_octet b"
  shows "second_octet_in_range (a @ ''.'' @ b @ ''.'' @ rest) =
           Inr (prefix ''172.'' (a @ ''.'' @ b @ ''.'' @ rest) \<and> 16 \<le> decimal_value b \<and> decimal_value b \<le> 31)"
proof -
  have "py_split (a @ ''.'' @ b @ ''.'' @ rest) CHR ''.'' = a # b # split_from CHR ''.'' [] rest"
    using split_from_sep[OF octet_no_dot[OF assms(1)], of "[]"]
      split_from_sep[OF octet_no_dot[OF assms(2)], of "[]"]
    by (simp add: py_split_def)
  then have "subscript (py_split (a @ ''.'' @ b @ ''.'' @ rest) CHR ''.'') 1 = Inr b"
    by (simp add: subscript_def)
  moreover have "py_int b = Inr (decimal_value b)"
    using assms(2) by (simp add: py_int_digits is_octet_def int_max_str_digits_def)
  ultimately show ?thesis
    unfolding second_octet_in_range_def startswith_prefix by simp
qed

lemma is_private_ip_quad:
  assumes "is_octet a" "is_octet b"
  shows "is_private_ip (a @ ''.'' @ b @ ''.'' @ rest) =
           Inr (prefix ''10.'' (a @ ''.'' @ b @ ''.'' @ rest)
                \<or> (prefix ''172.'' (a @ ''.'' @ b @ ''.'' @ rest) \<and> 16 \<le> decimal_value b \<and> decimal_value b \<le> 31)
                \<or> prefix ''192.0.'' (a @ ''.'' @ b @ ''.'' @ rest))"
  unfolding is_private_ip_def second_octet_quad[OF assms] startswith_prefix
  by (simp add: any_def)

lemma is_private_ip_192_168:
  assumes "prefix ''192.168.'' ip"
  shows "is_private_ip ip = Inr False"
proof -
  obtain r where "ip = ''192.168.'' @ r" using assms by (auto simp: prefix_def)
  then show ?thesis
    by (simp add: is_private_ip_def second_octet_in_range_def startswith_def any_def)
qed

lemma verify_resolved:
  assumes "socket_gethostbyname w bedrock_endpoint = Inr ip" "is_private_ip ip = Inr b"
  shows "snd (verify_private_connection w) = Inr b"
  using assms by (simp add: verify_private_connection_def verify_private_connection_try_def)

text \<open>
  C1. When the resolver returns a dotted quad \<open>a.b.c.d\<close>, the check returns true exactly
  when the address starts with \<open>10.\<close>, or starts with \<open>172.\<close> and the value of its
  second octet \<open>b\<close> lies in 16..31, or starts with \<open>192.0.\<close>. Every address that starts
  with \<open>192.168.\<close> yields false.
\<close>

theorem classifier_rule:
  assumes "socket_gethostbyname w bedrock_endpoint = Inr ip"
  shows "(is_octet a \<and> is_octet b \<and> is_octet c \<and> is_octet d
            \<and> ip = a @ ''.'' @ b @ ''.'' @ c @ ''.'' @ d \<longrightarrow>
          snd (verify_private_connection w) =
            Inr (prefix ''10.'' ip
                 \<or> (prefix ''172.'' ip \<and> 16 \<le> decimal_value b \<and> decimal_value b \<le> 31)
                 \<or> prefix ''192.0.'' ip))
       \<and> (prefix ''192.168.'' ip \<longrightarrow> snd (verify_private_connection w) = Inr False)"
proof (intro conjI impI)
  assume q: "is_octet a \<and> is_octet b \<and> is_octet c \<and> is_octet d
            \<and> ip = a @ ''.'' @ b @ ''.'' @ c @ ''.'' @ d"
  then have ip: "ip = a @ ''.'' @ b @ ''.'' @ (c @ ''.'' @ d)" by simp
  show "snd (verify_private_connection w) =
            Inr (prefix ''10.'' ip
                 \<or> (prefix ''172.'' ip \<and> 16 \<le> decimal_value b \<and> decimal_value b \<le> 31)
                 \<or> prefix ''192.0.'' ip)"
    unfolding ip
    by (rule verify_resolved[OF assms[unfolded ip]]) (use q in \<open>simp only: is_private_ip_quad\<close>)
next
  assume "prefix ''192.168.'' ip"
  then show "snd (verify_private_connection w) = Inr False"
    by (rule verify_resolved[OF assms is_private_ip_192_168])
qed

theorem classifier_rule_witness:
  "is_octet ''172'' \<and> is_octet ''31'' \<and> is_octet ''0'' \<and> is_octet ''1''
   \<and> snd (verify_private_connection (stub_world (Inr ''172.31.0.1'') [])) = Inr True
   \<and> prefix ''192.168.'' ''192.168.1.7''
   \<and> snd (verify_private_connection (stub_world (Inr ''192.168.1.7'') [])) = Inr False"
proof -
  have o: "is_octet ''172'' \<and> is_octet ''31'' \<and> is_octet ''0'' \<and> is_octet ''1''"
    by (simp add: is_octet_def is_digit_def decimal_value_def digit_val_def)
  have 1: "socket_gethostbyname (stub_world (Inr ''172.31.0.1'') []) bedrock_endpoint = Inr ''172.31.0.1''"
    by (simp add: stub_world_def)
  have 2: "socket_gethostbyname (stub_world (Inr ''192.168.1.7'') []) bedrock_endpoint = Inr ''192.168.1.7''"
    by (simp add: stub_world_def)
  have p: "prefix ''192.168.'' ''192.168.1.7''" by simp
  have "decimal_value ''31'' = 31" by (simp add: decimal_value_def digit_val_def)
  then have a: "snd (verify_private_connection (stub_world (Inr ''172.31.0.1'') [])) = Inr True"
    using classifier_rule[OF 1, of "''172''" "''31''" "''0''" "''1''"] o by simp
  have b: "snd (verify_private_connection (stub_world (Inr ''192.168.1.7'') [])) = Inr False"
    using classifier_rule[OF 2, of "''192''" "''168''" "''1''" "''7''"] p by blast
  from o a p b show ?thesis by blast
qed

lemma verify_returns: "\<exists>l b. verify_private_connection w = (l, Inr b)"
  by (auto simp: verify_private_connection_def split: prod.split sum.split)

lemma verify_failed_resolution:
  "socket_gethostbyname w bedrock_endpoint = Inl e \<Longrightarrow>
     verify_private_connection w =
       ([(ERROR, TextExn ''Error verifying private connection: '' e)], Inr False)"
  by (simp add: verify_private_connection_def verify_private_connection_try_def)

text \<open>
  C6. Whatever the resolver does, the check returns a boolean and raises nothing. When the
  resolution fails it returns false, and so it does when the classification itself
  raises, as on \<open>172.x.y.z\<close>, where \<open>int('x')\<close> is a \<open>ValueError\<close>.
\<close>

theorem verify_private_connection_total:
  "(\<exists>b. snd (verify_private_connection w) = Inr b)
   \<and> (socket_gethostbyname w bedrock_endpoint = Inl e \<longrightarrow>
        snd (verify_private_connection w) = Inr False)
   \<and> (socket_gethostbyname w bedrock_endpoint = Inr ip \<and> is_private_ip ip = Inl e' \<longrightarrow>
        snd (verify_private_connection w) = Inr False)"
proof (intro conjI impI)
  obtain l b where "verify_private_connection w = (l, Inr b)"
    using verify_returns by blast
  then show "\<exists>b. snd (verify_private_connection w) = Inr b" by simp
next
  assume "socket_gethostbyname w bedrock_endpoint = Inl e"
  then show "snd (verify_private_connection w) = Inr False"
    by (simp add: verify_failed_resolution)
next
  assume "socket_gethostbyname w bedrock_endpoint = Inr ip \<and> is_private_ip ip = Inl e'"
  then show "snd (verify_private_connection w) = Inr False"
    by (simp add: verify_private_connection_def verify_private_connection_try_def)
qed

lemma is_private_ip_172_x: "is_private_ip ''172.x.y.z'' = Inl (ValueError ''x'')"
  by (simp add: is_private_ip_def second_octet_in_range_def startswith_def py_split_def
      subscript_def py_int_def strip_def is_space_def int_unsigned_def is_digit_def)

theorem verify_private_connection_total_witness:
  "socket_gethostbyname (stub_world (Inl (OtherException ''socket.gaierror'')) []) bedrock_endpoint
     = Inl (OtherException ''socket.gaierror'')
   \<and> snd (verify_private_connection (stub_world (Inl (OtherException ''socket.gaierror'')) []))
     = Inr False
   \<and> socket_gethostbyname (stub_world (Inr ''172.x.y.z'') []) bedrock_endpoint = Inr ''172.x.y.z''
   \<and> is_private_ip ''172.x.y.z'' = Inl (ValueError ''x'')
   \<and> snd (verify_private_connection (stub_world (Inr ''172.x.y.z'') [])) = Inr False"
proof -
  let ?w1 = "stub_world (Inl (OtherException ''socket.gaierror'')) []"
  let ?w2 = "stub_world (Inr ''172.x.y.z'') []"
  have 1: "socket_gethostbyname ?w1 bedrock_endpoint = Inl (OtherException ''socket.gaierror'')"
    by (simp add: stub_world_def)
  have 2: "socket_gethostbyname ?w2 bedrock_endpoint = Inr ''172.x.y.z''"
    by (simp add: stub_world_def)
  have a: "snd (verify_private_connection ?w1) = Inr False"
    using verify_private_connection_total[of ?w1 "OtherException ''socket.gaierror''"] 1 by blast
  have b: "snd (verify_private_connection ?w2) = Inr False"
    using verify_private_connection_total[of ?w2 _ "''172.x.y.z''" "ValueError ''x''"] 2
      is_private_ip_172_x by blast
  from 1 2 a b is_private_ip_172_x show ?thesis by blast
qed

lemma is_private_ip_10: "is_private_ip ''10.0.0.1'' = Inr True"
  by (simp add: is_private_ip_def second_octet_in_range_def startswith_def any_def)

lemma is_private_ip_8: "is_private_ip ''8.8.8.8'' = Inr False"
  by (simp add: is_private_ip_def second_octet_in_range_def startswith_def any_def)

section \<open>The client factory\<close>

lemma get_bedrock_client_try_result:
  "snd (get_bedrock_client_try w region) =
     (case botocore_Config w (config_arguments region) of
        Inl e \<Rightarrow> Inl e
      | Inr config \<Rightarrow> boto3_client w ''bedrock'' config)"
proof -
  obtain l b where "verify_private_connection w = (l, Inr b)"
    using verify_returns by blast
  then show ?thesis
    by (simp add: get_bedrock_client_try_def Let_def split: sum.split)
qed

lemma get_bedrock_client_result:
  "snd (get_bedrock_client w arg) =
     (case botocore_Config w (config_arguments (case arg of None \<Rightarrow> ''us-east-1'' | Some r \<Rightarrow> r)) of
        Inl e \<Rightarrow> Inl e
      | Inr config \<Rightarrow> boto3_client w ''bedrock'' config)"
proof -
  let ?r = "case arg of None \<Rightarrow> ''us-east-1'' | Some r \<Rightarrow> r"
  have "snd (get_bedrock_client w arg) = snd (get_bedrock_client_try w ?r)"
    by (simp add: get_bedrock_client_def Let_def split: prod.split sum.split)
  then show ?thesis by (simp add: get_bedrock_client_try_result)
qed

text \<open>
  The keyword arguments that the factory hands to \<open>Config\<close>, for every region and every
  SDK: the region, retries of at most 3 attempts in mode \<open>standard\<close>, a connect timeout of
  5, a read timeout of 10 and the endpoint URL \<open>https://bedrock.<region>.amazonaws.com\<close>.
  The \<open>bedrock\<close> client is created from what \<open>Config\<close> returns, and leaving the region
  out is the call with \<open>us-east-1\<close>.
\<close>

lemma config_arguments_passed:
  "snd (get_bedrock_client w (Some region)) =
     (case botocore_Config w
             \<lparr>region_name = region,
              retries = \<lparr>max_attempts = 3, mode = ''standard''\<rparr>,
              connect_timeout = 5,
              read_timeout = 10,
              endpoint_url = ''https://bedrock.'' @ region @ ''.amazonaws.com''\<rparr> of
        Inl e \<Rightarrow> Inl e
      | Inr config \<Rightarrow> boto3_client w ''bedrock'' config)
   \<and> get_bedrock_client w None = get_bedrock_client w (Some ''us-east-1'')"
  by (simp add: get_bedrock_client_result config_arguments_def) (simp add: get_bedrock_client_def)

lemma Config_init_raises: "Config_init kwargs = Inl (OtherException ''TypeError'')"
  by (simp add: Config_init_def config_keywords_def OPTION_DEFAULTS_def)

text \<open>
  C8. The claim does not hold of the program: \<open>endpoint_url\<close> is no option of the SDK's
  \<open>Config\<close>, so the call \<open>Config(...)\<close> of the factory raises \<open>TypeError\<close> for every region,
  with the region left out as well. The factory logs the error and raises it again; no
  configuration is built and no client is returned.
\<close>

theorem Config_rejects_endpoint_url:
  "botocore_Config (sdk_world dns pages) (config_arguments region)
     = Inl (OtherException ''TypeError'')
   \<and> snd (get_bedrock_client (sdk_world dns pages) arg) = Inl (OtherException ''TypeError'')
   \<and> last (fst (get_bedrock_client (sdk_world dns pages) arg))
     = (ERROR, TextExn ''Error creating Bedrock client: '' (OtherException ''TypeError''))"
proof (intro conjI)
  show 1: "botocore_Config (sdk_world dns pages) (config_arguments region)
     = Inl (OtherException ''TypeError'')" for region
    by (simp add: sdk_world_def Config_init_raises)
  show 2: "snd (get_bedrock_client (sdk_world dns pages) arg) = Inl (OtherException ''TypeError'')"
    by (simp add: get_bedrock_client_result 1)
  obtain l where "get_bedrock_client_try (sdk_world dns pages)
      (case arg of None \<Rightarrow> ''us-east-1'' | Some r \<Rightarrow> r) = (l, Inl (OtherException ''TypeError''))"
    using get_bedrock_client_try_result[of "sdk_world dns pages"
        "case arg of None \<Rightarrow> ''us-east-1'' | Some r \<Rightarrow> r"] 1
    by (cases "get_bedrock_client_try (sdk_world dns pages)
      (case arg of None \<Rightarrow> ''us-east-1'' | Some r \<Rightarrow> r)") simp
  then show "last (fst (get_bedrock_client (sdk_world dns pages) arg))
     = (ERROR, TextExn ''Error creating Bedrock client: '' (OtherException ''TypeError''))"
    by (simp add: get_bedrock_client_def)
qed

text \<open>
  C9. The client does not depend on the connectivity check. The resolver's answer is all
  the check reads. Whatever it is, the factory goes on to the SDK's \<open>Config\<close> and
  \<open>client\<close> with the same arguments, so two runs that differ in the resolver's answer
  alone end alike; when the SDK returns a client, both runs return that client. In the
  stub world the run in which the resolver answers \<open>10.0.0.1\<close> and the check returns
  true and the run in which it answers \<open>8.8.8.8\<close> and the check returns false both
  return the \<open>bedrock\<close> client with the same configuration; their logs differ.
\<close>

theorem client_independent_of_check:
  "snd (get_bedrock_client (w\<lparr>socket_gethostbyname := resolver_a\<rparr>) arg) =
   snd (get_bedrock_client (w\<lparr>socket_gethostbyname := resolver_b\<rparr>) arg)
   \<and> snd (get_bedrock_client (w\<lparr>socket_gethostbyname := resolver_a\<rparr>) arg) =
       (case botocore_Config w
               (config_arguments (case arg of None \<Rightarrow> ''us-east-1'' | Some r \<Rightarrow> r)) of
          Inl e \<Rightarrow> Inl e
        | Inr config \<Rightarrow> boto3_client w ''bedrock'' config)
   \<and> (botocore_Config w (config_arguments (case arg of None \<Rightarrow> ''us-east-1'' | Some r \<Rightarrow> r))
         = Inr config
       \<and> boto3_client w ''bedrock'' config = Inr client \<longrightarrow>
       snd (get_bedrock_client (w\<lparr>socket_gethostbyname := resolver_a\<rparr>) arg) = Inr client
       \<and> snd (get_bedrock_client (w\<lparr>socket_gethostbyname := resolver_b\<rparr>) arg) = Inr client)
   \<and> snd (verify_private_connection (stub_world (Inr ''10.0.0.1'') pages)) = Inr True
   \<and> snd (verify_private_connection (stub_world (Inr ''8.8.8.8'') pages)) = Inr False
   \<and> snd (get_bedrock_client (stub_world (Inr ''10.0.0.1'') pages) arg) =
       Inr (''bedrock'', config_arguments (case arg of None \<Rightarrow> ''us-east-1'' | Some r \<Rightarrow> r))
   \<and> snd (get_bedrock_client (stub_world (Inr ''8.8.8.8'') pages) arg) =
       Inr (''bedrock'', config_arguments (case arg of None \<Rightarrow> ''us-east-1'' | Some r \<Rightarrow> r))
   \<and> fst (get_bedrock_client (stub_world (Inr ''10.0.0.1'') pages) arg) \<noteq>
       fst (get_bedrock_client (stub_world (Inr ''8.8.8.8'') pages) arg)"
proof (intro conjI impI)
  show "snd (get_bedrock_client (w\<lparr>socket_gethostbyname := resolver_a\<rparr>) arg) =
   snd (get_bedrock_client (w\<lparr>socket_gethostbyname := resolver_b\<rparr>) arg)"
    by (simp add: get_bedrock_client_result split: sum.split)
  show "snd (get_bedrock_client (w\<lparr>socket_gethostbyname := resolver_a\<rparr>) arg) =
       (case botocore_Config w
               (config_arguments (case arg of None \<Rightarrow> ''us-east-1'' | Some r \<Rightarrow> r)) of
          Inl e \<Rightarrow> Inl e
        | Inr config \<Rightarrow> boto3_client w ''bedrock'' config)"
    by (simp add: get_bedrock_client_result split: sum.split)
  show "snd (verify_private_connection (stub_world (Inr ''10.0.0.1'') pages)) = Inr True"
    by (rule verify_resolved[OF _ is_private_ip_10]) (simp add: stub_world_def)
  show "snd (verify_private_connection (stub_world (Inr ''8.8.8.8'') pages)) = Inr False"
    by (rule verify_resolved[OF _ is_private_ip_8]) (simp add: stub_world_def)
  show "snd (get_bedrock_client (stub_world (Inr ''10.0.0.1'') pages) arg) =
       Inr (''bedrock'', config_arguments (case arg of None \<Rightarrow> ''us-east-1'' | Some r \<Rightarrow> r))"
    by (simp add: get_bedrock_client_result) (simp add: stub_world_def)
  show "snd (get_bedrock_client (stub_world (Inr ''8.8.8.8'') pages) arg) =
       Inr (''bedrock'', config_arguments (case arg of None \<Rightarrow> ''us-east-1'' | Some r \<Rightarrow> r))"
    by (simp add: get_bedrock_client_result) (simp add: stub_world_def)
  show "fst (get_bedrock_client (stub_world (Inr ''10.0.0.1'') pages) arg) \<noteq>
       fst (get_bedrock_client (stub_world (Inr ''8.8.8.8'') pages) arg)"
    by (simp add: get_bedrock_client_def get_bedrock_client_try_def
        verify_private_connection_def verify_private_connection_try_def stub_world_def
        is_private_ip_10 is_private_ip_8)
next
  assume h: "botocore_Config w (config_arguments (case arg of None \<Rightarrow> ''us-east-1'' | Some r \<Rightarrow> r))
         = Inr config
       \<and> boto3_client w ''bedrock'' config = Inr client"
  then show "snd (get_bedrock_client (w\<lparr>socket_gethostbyname := resolver_a\<rparr>) arg) = Inr client"
    by (simp add: get_bedrock_client_result)
  from h show "snd (get_bedrock_client (w\<lparr>socket_gethostbyname := resolver_b\<rparr>) arg) = Inr client"
    by (simp add: get_bedrock_client_result)
qed

theorem client_independent_of_check_witness:
  "botocore_Config (stub_world (Inr ''10.0.0.1'') []) (config_arguments ''us-east-1'')
     = Inr (config_arguments ''us-east-1'')
   \<and> boto3_client (stub_world (Inr ''10.0.0.1'') []) ''bedrock'' (config_arguments ''us-east-1'')
     = Inr (''bedrock'', config_arguments ''us-east-1'')
   \<and> snd (get_bedrock_client
        ((stub_world (Inr ''10.0.0.1'') [])\<lparr>socket_gethostbyname := (\<lambda>host. Inr ''10.0.0.1'')\<rparr>) None)
     = Inr (''bedrock'', config_arguments ''us-east-1'')
   \<and> snd (get_bedrock_client
        ((stub_world (Inr ''10.0.0.1'') [])\<lparr>socket_gethostbyname :=
           (\<lambda>host. Inl (OtherException ''socket.gaierror''))\<rparr>) None)
     = Inr (''bedrock'', config_arguments ''us-east-1'')"
proof -
  let ?w = "stub_world (Inr ''10.0.0.1'') []"
  let ?c = "config_arguments ''us-east-1''"
  have 1: "botocore_Config ?w ?c = Inr ?c" by (simp add: stub_world_def)
  have 2: "boto3_client ?w ''bedrock'' ?c = Inr (''bedrock'', ?c)" by (simp add: stub_world_def)
  have h: "botocore_Config ?w (config_arguments (case None of None \<Rightarrow> ''us-east-1'' | Some r \<Rightarrow> r))
         = Inr ?c \<and> boto3_client ?w ''bedrock'' ?c = Inr (''bedrock'', ?c)"
    using 1 2 by simp
  note t = client_independent_of_check[where w = ?w and arg = None
      and resolver_a = "\<lambda>host. Inr ''10.0.0.1''"
      and resolver_b = "\<lambda>host. Inl (OtherException ''socket.gaierror'')"
      and config = ?c and client = "(''bedrock'', ?c)"]
  from t h have
    "snd (get_bedrock_client (?w\<lparr>socket_gethostbyname := (\<lambda>host. Inr ''10.0.0.1'')\<rparr>) None)
       = Inr (''bedrock'', ?c)
     \<and> snd (get_bedrock_client
        (?w\<lparr>socket_gethostbyname := (\<lambda>host. Inl (OtherException ''socket.gaierror''))\<rparr>) None)
       = Inr (''bedrock'', ?c)"
    by blast
  with 1 2 show ?thesis by blast
qed

section \<open>The model inventory\<close>

lemma lifecycle_is_active_iff: "lifecycle_is_active m = (lifecycle_status m = Some ''ACTIVE'')"
  by (simp add: lifecycle_is_active_def lifecycle_status_def split: option.split)

lemma for_model_append:
  "for_model acc (xs @ ys) =
     (case for_model acc xs of Inl e \<Rightarrow> Inl e | Inr acc' \<Rightarrow> for_model acc' ys)"
  by (induction xs arbitrary: acc) (auto split: sum.split)

lemma for_model_Inr:
  "for_model acc models = Inr r \<longleftrightarrow>
     (\<exists>r'. r = acc @ r' \<and> map enabled_entry (filter lifecycle_is_active models) = map Inr r')"
proof (induction models arbitrary: acc)
  case Nil
  then show ?case by auto
next
  case (Cons m models)
  show ?case
  proof (cases "lifecycle_is_active m")
    case False
    then show ?thesis using Cons.IH by simp
  next
    case True
    show ?thesis
    proof (cases "enabled_entry m")
      case (Inl e)
      then show ?thesis using True by (auto simp: map_eq_Cons_conv)
    next
      case (Inr d)
      have "for_model acc (m # models) = Inr r \<longleftrightarrow> for_model (acc @ [d]) models = Inr r"
        using True Inr by simp
      also have "\<dots> \<longleftrightarrow> (\<exists>r'. r = (acc @ [d]) @ r'
          \<and> map enabled_entry (filter lifecycle_is_active models) = map Inr r')"
        by (rule Cons.IH)
      also have "\<dots> \<longleftrightarrow> (\<exists>r'. r = acc @ r'
          \<and> map enabled_entry (filter lifecycle_is_active (m # models)) = map Inr r')"
        using True Inr by (auto simp: Cons_eq_map_conv)
      finally show ?thesis .
    qed
  qed
qed

lemma for_page_Inr:
  "for_page acc pages = Inr r \<longleftrightarrow>
     list_all page_fetched pages
     \<and> (\<exists>r'. r = acc @ r'
           \<and> map enabled_entry (filter lifecycle_is_active (all_models pages)) = map Inr r')"
proof (induction acc pages arbitrary: r rule: for_page.induct)
  case (1 acc)
  then show ?case by (auto simp: all_models_def)
next
  case (2 acc e rest)
  then show ?case by simp
next
  case (3 acc p rest)
  show ?case
  proof (cases "modelSummaries p")
    case None
    then show ?thesis by simp
  next
    case (Some models)
    show ?thesis
    proof (cases "for_model acc models")
      case (Inl e)
      then have "\<not> (\<exists>r'. map enabled_entry (filter lifecycle_is_active models) = map Inr r')"
        using for_model_Inr[of acc models] by auto
      then have "\<not> (\<exists>r'. map enabled_entry (filter lifecycle_is_active (all_models (Inr p # rest))) = map Inr r')"
        using Some by (auto simp: all_models_def map_eq_append_conv append_eq_map_conv)
      then show ?thesis using Some Inl by auto
    next
      case (Inr acc')
      then obtain r1 where r1: "acc' = acc @ r1"
        "map enabled_entry (filter lifecycle_is_active models) = map Inr r1"
        using for_model_Inr[of acc models acc'] by auto
      have "for_page acc (Inr p # rest) = Inr r \<longleftrightarrow> for_page acc' rest = Inr r"
        using Some Inr by simp
      also have "\<dots> \<longleftrightarrow> list_all page_fetched rest
         \<and> (\<exists>r'. r = acc' @ r'
           \<and> map enabled_entry (filter lifecycle_is_active (all_models rest)) = map Inr r')"
        using 3 Some Inr by simp
      also have "\<dots> \<longleftrightarrow> list_all page_fetched (Inr p # rest)
         \<and> (\<exists>r'. r = acc @ r'
           \<and> map enabled_entry (filter lifecycle_is_active (all_models (Inr p # rest))) = map Inr r')"
      proof -
        have "(\<exists>r'. r = acc' @ r'
           \<and> map enabled_entry (filter lifecycle_is_active (all_models rest)) = map Inr r')
          \<longleftrightarrow> (\<exists>r'. r = acc @ r'
           \<and> map enabled_entry (filter lifecycle_is_active (all_models (Inr p # rest))) = map Inr r')"
          (is "?L \<longleftrightarrow> ?R")
        proof
          assume ?L
          then obtain r2 where "r = acc' @ r2"
            "map enabled_entry (filter lifecycle_is_active (all_models rest)) = map Inr r2" by auto
          then have "r = acc @ (r1 @ r2) \<and>
            map enabled_entry (filter lifecycle_is_active (all_models (Inr p # rest))) = map Inr (r1 @ r2)"
            using r1 Some by (simp add: all_models_def)
          then show ?R by blast
        next
          assume ?R
          then obtain r' where r': "r = acc @ r'"
            "map enabled_entry (filter lifecycle_is_active (all_models (Inr p # rest))) = map Inr r'" by auto
          then have "map Inr r1 @ map enabled_entry (filter lifecycle_is_active (all_models rest)) = map Inr r'"
            using r1 Some by (simp add: all_models_def)
          then obtain r2 where "r' = r1 @ r2"
            "map enabled_entry (filter lifecycle_is_active (all_models rest)) = map Inr r2"
            by (auto simp: append_eq_map_conv inj_map_eq_map[OF inj_Inr])
          then show ?L using r' r1 by auto
        qed
        then show ?thesis using Some by simp
      qed
      finally show ?thesis .
    qed
  qed
qed

lemma list_try_result:
  "snd (list_foundation_models_try w) =
     (case snd (get_bedrock_client w None) of
        Inl e \<Rightarrow> Inl e
      | Inr client \<Rightarrow>
          (case client_get_paginator w client ''list_foundation_models'' of
             Inl e \<Rightarrow> Inl e
           | Inr paginator \<Rightarrow> for_page [] (paginator_paginate w paginator)))"
  by (simp add: list_foundation_models_try_def split: prod.split sum.split)

lemma list_Inr_try:
  "snd (list_foundation_models w) = Inr ms \<longleftrightarrow> snd (list_foundation_models_try w) = Inr ms"
  by (auto simp: list_foundation_models_def except_ClientError_def
      split: prod.splits sum.splits exn.splits option.splits)

lemma list_Inr_pages:
  "snd (list_foundation_models w) = Inr ms \<longleftrightarrow>
     (\<exists>pages. listed_pages w = Some pages \<and> for_page [] pages = Inr ms)"
  unfolding list_Inr_try list_try_result listed_pages_def
  by (auto split: sum.splits)

lemma stub_listed_pages: "listed_pages (stub_world dns pages) = Some pages"
  by (simp add: listed_pages_def get_bedrock_client_result) (simp add: stub_world_def)

lemma stub_list_try: "snd (list_foundation_models_try (stub_world dns pages)) = for_page [] pages"
  by (simp add: list_try_result get_bedrock_client_result) (simp add: stub_world_def)

lemma stub_list_Inr:
  "for_page [] pages = Inr ms \<Longrightarrow> snd (list_foundation_models (stub_world dns pages)) = Inr ms"
  by (simp add: list_Inr_try stub_list_try)

lemma list_result_models:
  assumes "listed_pages w = Some pages" "snd (list_foundation_models w) = Inr ms"
  shows "list_all page_fetched pages"
    and "map enabled_entry (filter lifecycle_is_active (all_models pages)) = map Inr ms"
  using assms by (auto simp: list_Inr_pages for_page_Inr)

text \<open>
  C2. When the call returns, its result is the entries of all pages whose lifecycle status
  is the string \<open>ACTIVE\<close>, each turned into its record, and no other entry. A stub
  paginator that emits \<open>m1\<close> with status \<open>ACTIVE\<close> and \<open>m2\<close> with status \<open>LEGACY\<close>
  gives exactly the record of \<open>m1\<close>.
\<close>

theorem inventory_keeps_active:
  "(listed_pages w = Some pages \<and> snd (list_foundation_models w) = Inr ms \<longrightarrow>
      map Inr ms =
        map enabled_entry (filter (\<lambda>m. lifecycle_status m = Some ''ACTIVE'') (all_models pages)))
   \<and> snd (list_foundation_models (stub_world dns
        [Inr \<lparr>modelSummaries = Some
           [\<lparr>model_summary.modelId = Some ''m1'', providerName = Some p1,
             modelLifecycle = Some \<lparr>status = Some ''ACTIVE''\<rparr>,
             model_summary.inputModalities = Some i1, model_summary.outputModalities = Some o1\<rparr>,
            \<lparr>model_summary.modelId = Some ''m2'', providerName = p2,
             modelLifecycle = Some \<lparr>status = Some ''LEGACY''\<rparr>,
             model_summary.inputModalities = i2, model_summary.outputModalities = o2\<rparr>]\<rparr>]))
       = Inr [\<lparr>modelId = ''m1'', provider = p1, inputModalities = i1, outputModalities = o1\<rparr>]"
proof (intro conjI impI)
  assume "listed_pages w = Some pages \<and> snd (list_foundation_models w) = Inr ms"
  then have "map enabled_entry (filter lifecycle_is_active (all_models pages)) = map Inr ms"
    using list_result_models(2) by blast
  moreover have "lifecycle_is_active = (\<lambda>m. lifecycle_status m = Some ''ACTIVE'')"
    by (simp add: fun_eq_iff lifecycle_is_active_iff)
  ultimately show "map Inr ms =
        map enabled_entry (filter (\<lambda>m. lifecycle_status m = Some ''ACTIVE'') (all_models pages))"
    by simp
next
  show "snd (list_foundation_models (stub_world dns
        [Inr \<lparr>modelSummaries = Some
           [\<lparr>model_summary.modelId = Some ''m1'', providerName = Some p1,
             modelLifecycle = Some \<lparr>status = Some ''ACTIVE''\<rparr>,
             model_summary.inputModalities = Some i1, model_summary.outputModalities = Some o1\<rparr>,
            \<lparr>model_summary.modelId = Some ''m2'', providerName = p2,
             modelLifecycle = Some \<lparr>status = Some ''LEGACY''\<rparr>,
             model_summary.inputModalities = i2, model_summary.outputModalities = o2\<rparr>]\<rparr>]))
       = Inr [\<lparr>modelId = ''m1'', provider = p1, inputModalities = i1, outputModalities = o1\<rparr>]"
    by (rule stub_list_Inr) (simp add: lifecycle_is_active_def enabled_entry_def)
qed


lemmas run_defs =
  list_foundation_models_def list_foundation_models_try_def except_ClientError_def
  get_bedrock_client_def get_bedrock_client_try_def
  verify_private_connection_def verify_private_connection_try_def
  stub_world_def lifecycle_is_active_def enabled_entry_def model_entry_def

theorem inventory_keeps_active_witness:
  "listed_pages (stub_world (Inr ''10.0.0.1'')
      [Inr \<lparr>modelSummaries = Some [model_entry ''m1'' ''p'' ''ACTIVE'', model_entry ''m2'' ''p'' ''LEGACY'']\<rparr>])
     = Some [Inr \<lparr>modelSummaries = Some [model_entry ''m1'' ''p'' ''ACTIVE'', model_entry ''m2'' ''p'' ''LEGACY'']\<rparr>]
   \<and> snd (list_foundation_models (stub_world (Inr ''10.0.0.1'')
      [Inr \<lparr>modelSummaries = Some [model_entry ''m1'' ''p'' ''ACTIVE'', model_entry ''m2'' ''p'' ''LEGACY'']\<rparr>]))
     = Inr [\<lparr>modelId = ''m1'', provider = ''p'', inputModalities = [], outputModalities = []\<rparr>]
   \<and> map Inr [\<lparr>modelId = ''m1'', provider = ''p'', inputModalities = [], outputModalities = []\<rparr>]
     = map enabled_entry (filter (\<lambda>m. lifecycle_status m = Some ''ACTIVE'')
         (all_models [Inr \<lparr>modelSummaries = Some [model_entry ''m1'' ''p'' ''ACTIVE'', model_entry ''m2'' ''p'' ''LEGACY'']\<rparr>]))"
proof -
  let ?ps = "[Inr \<lparr>modelSummaries = Some [model_entry ''m1'' ''p'' ''ACTIVE'', model_entry ''m2'' ''p'' ''LEGACY'']\<rparr>]"
  let ?w = "stub_world (Inr ''10.0.0.1'') ?ps"
  let ?ms = "[\<lparr>modelId = ''m1'', provider = ''p'', inputModalities = [], outputModalities = []\<rparr>]"
  have 1: "listed_pages ?w = Some ?ps" by (rule stub_listed_pages)
  have 2: "snd (list_foundation_models ?w) = Inr ?ms"
    by (rule stub_list_Inr) (simp add: run_defs)
  from 1 2 inventory_keeps_active[of ?w ?ps ?ms] show ?thesis by blast
qed

text \<open>
  C3, as amended. A record is emitted only for a source entry whose lifecycle status is
  the string \<open>ACTIVE\<close>, compared exactly: every record of the result is the record of
  such an entry, and when no entry has that status the result is empty.
\<close>

theorem emitted_only_when_ACTIVE:
  assumes "listed_pages w = Some pages" and "snd (list_foundation_models w) = Inr ms"
  shows "(\<forall>d\<in>set ms. \<exists>m\<in>set (all_models pages).
            lifecycle_status m = Some ''ACTIVE'' \<and> enabled_entry m = Inr d)
       \<and> ((\<forall>m\<in>set (all_models pages). lifecycle_status m \<noteq> Some ''ACTIVE'') \<longrightarrow> ms = [])"
proof -
  have eq: "map enabled_entry (filter lifecycle_is_active (all_models pages)) = map Inr ms"
    using list_result_models(2)[OF assms] .
  have a: "\<exists>m\<in>set (all_models pages). lifecycle_status m = Some ''ACTIVE'' \<and> enabled_entry m = Inr d"
    if "d \<in> set ms" for d
  proof -
    from that have "Inr d \<in> set (map enabled_entry (filter lifecycle_is_active (all_models pages)))"
      unfolding eq by simp
    then show ?thesis by (auto simp: lifecycle_is_active_iff)
  qed
  have b: "ms = []" if "\<forall>m\<in>set (all_models pages). lifecycle_status m \<noteq> Some ''ACTIVE''"
  proof -
    from that have "filter lifecycle_is_active (all_models pages) = []"
      by (simp add: filter_empty_conv lifecycle_is_active_iff)
    with eq show ?thesis by simp
  qed
  from a b show ?thesis by blast
qed

theorem emitted_only_when_ACTIVE_witness:
  "listed_pages (stub_world (Inr ''10.0.0.1'')
      [Inr \<lparr>modelSummaries = Some [model_entry ''m1'' ''p'' ''ACTIVE'', model_entry ''m2'' ''p'' ''Active'']\<rparr>])
     = Some [Inr \<lparr>modelSummaries = Some [model_entry ''m1'' ''p'' ''ACTIVE'', model_entry ''m2'' ''p'' ''Active'']\<rparr>]
   \<and> snd (list_foundation_models (stub_world (Inr ''10.0.0.1'')
      [Inr \<lparr>modelSummaries = Some [model_entry ''m1'' ''p'' ''ACTIVE'', model_entry ''m2'' ''p'' ''Active'']\<rparr>]))
     = Inr [\<lparr>modelId = ''m1'', provider = ''p'', inputModalities = [], outputModalities = []\<rparr>]
   \<and> (\<exists>m. m \<in> set (all_models
          [Inr \<lparr>modelSummaries = Some [model_entry ''m1'' ''p'' ''ACTIVE'', model_entry ''m2'' ''p'' ''Active'']\<rparr>])
        \<and> lifecycle_status m = Some ''ACTIVE''
        \<and> enabled_entry m = Inr \<lparr>modelId = ''m1'', provider = ''p'', inputModalities = [], outputModalities = []\<rparr>)"
proof -
  let ?ps = "[Inr \<lparr>modelSummaries = Some [model_entry ''m1'' ''p'' ''ACTIVE'', model_entry ''m2'' ''p'' ''Active'']\<rparr>]"
  let ?w = "stub_world (Inr ''10.0.0.1'') ?ps"
  let ?d = "\<lparr>modelId = ''m1'', provider = ''p'', inputModalities = [], outputModalities = []\<rparr>"
  have 1: "listed_pages ?w = Some ?ps" by (rule stub_listed_pages)
  have 2: "snd (list_foundation_models ?w) = Inr [?d]"
    by (rule stub_list_Inr) (simp add: run_defs)
  have "\<forall>d\<in>set [?d]. \<exists>m\<in>set (all_models ?ps).
            lifecycle_status m = Some ''ACTIVE'' \<and> enabled_entry m = Inr d"
    using emitted_only_when_ACTIVE[OF 1 2] by blast
  then have "\<exists>m. m \<in> set (all_models ?ps) \<and> lifecycle_status m = Some ''ACTIVE'' \<and> enabled_entry m = Inr ?d"
    by (simp add: Bex_def)
  with 1 2 show ?thesis by blast
qed

text \<open>
  C3 as stated fails: the entry with status \<open>ACTIVE\<close>, which differs from \<open>active\<close> by
  case, is emitted, and the entry with status \<open>active\<close> is not.
\<close>

theorem status_active_lowercase_counterexample:
  "snd (list_foundation_models (stub_world (Inr ''10.0.0.1'')
      [Inr \<lparr>modelSummaries = Some [model_entry ''m1'' ''p'' ''ACTIVE'']\<rparr>]))
     = Inr [\<lparr>modelId = ''m1'', provider = ''p'', inputModalities = [], outputModalities = []\<rparr>]
   \<and> lifecycle_status (model_entry ''m1'' ''p'' ''ACTIVE'') \<noteq> Some ''active''
   \<and> lifecycle_status (model_entry ''m2'' ''p'' ''active'') = Some ''active''
   \<and> snd (list_foundation_models (stub_world (Inr ''10.0.0.1'')
      [Inr \<lparr>modelSummaries = Some [model_entry ''m2'' ''p'' ''active'']\<rparr>])) = Inr []"
proof -
  have "snd (list_foundation_models (stub_world (Inr ''10.0.0.1'')
      [Inr \<lparr>modelSummaries = Some [model_entry ''m1'' ''p'' ''ACTIVE'']\<rparr>]))
     = Inr [\<lparr>modelId = ''m1'', provider = ''p'', inputModalities = [], outputModalities = []\<rparr>]"
    by (rule stub_list_Inr) (simp add: run_defs)
  moreover have "snd (list_foundation_models (stub_world (Inr ''10.0.0.1'')
      [Inr \<lparr>modelSummaries = Some [model_entry ''m2'' ''p'' ''active'']\<rparr>])) = Inr []"
    by (rule stub_list_Inr) (simp add: run_defs)
  ultimately show ?thesis by (simp add: lifecycle_status_def model_entry_def)
qed

lemma for_page_append:
  "for_page acc (ps @ qs) =
     (case for_page acc ps of Inl e \<Rightarrow> Inl e | Inr acc' \<Rightarrow> for_page acc' qs)"
  by (induction acc ps rule: for_page.induct) (auto split: sum.split option.split)

lemma no_status_inactive:
  "modelLifecycle m = None \<or> (\<exists>lc. modelLifecycle m = Some lc \<and> status lc = None) \<Longrightarrow>
     \<not> lifecycle_is_active m"
  by (auto simp: lifecycle_is_active_def)

lemma for_model_skip:
  "\<not> lifecycle_is_active m \<Longrightarrow> for_model acc (xs @ m # ys) = for_model acc (xs @ ys)"
  by (simp add: for_model_append split: sum.split)

lemma for_page_skip:
  assumes "\<not> lifecycle_is_active m" "modelSummaries p = Some (xs @ m # ys)"
  shows "for_page acc (ps @ Inr p # qs) = for_page acc (ps @ Inr (p\<lparr>modelSummaries := Some (xs @ ys)\<rparr>) # qs)"
  using assms by (simp add: for_page_append for_model_skip split: sum.split)

lemma verify_paginate:
  "verify_private_connection (w\<lparr>paginator_paginate := f\<rparr>) = verify_private_connection w"
  by (simp add: verify_private_connection_def verify_private_connection_try_def)

lemma get_bedrock_client_paginate:
  "get_bedrock_client (w\<lparr>paginator_paginate := f\<rparr>) arg = get_bedrock_client w arg"
  by (simp add: get_bedrock_client_def get_bedrock_client_try_def verify_paginate
      cong: sum.case_cong prod.case_cong)

lemma list_try_paginate:
  "list_foundation_models_try (w\<lparr>paginator_paginate := (\<lambda>paginator. pages)\<rparr>) =
     (case get_bedrock_client w None of
        (l, Inl e) \<Rightarrow> (l, Inl e)
      | (l, Inr client) \<Rightarrow>
          (case client_get_paginator w client ''list_foundation_models'' of
             Inl e \<Rightarrow> (l, Inl e)
           | Inr paginator \<Rightarrow> (l, for_page [] pages)))"
  by (simp add: list_foundation_models_try_def get_bedrock_client_paginate
      cong: sum.case_cong prod.case_cong)

text \<open>
  C4. An entry without \<open>modelLifecycle\<close>, or whose \<open>modelLifecycle\<close> has no \<open>status\<close>, is
  left out and raises nothing: the loop passes over it with the list unchanged, and a run
  whose page holds the entry ends as the run whose page does not, with the same log and
  the same result or exception.
\<close>

theorem missing_lifecycle_excluded:
  assumes "modelLifecycle m = None \<or> (\<exists>lc. modelLifecycle m = Some lc \<and> status lc = None)"
  shows "for_model acc [m] = Inr acc
       \<and> for_model acc (xs @ m # ys) = for_model acc (xs @ ys)
       \<and> (modelSummaries p = Some (xs @ m # ys) \<longrightarrow>
            list_foundation_models (w\<lparr>paginator_paginate := (\<lambda>paginator. ps @ Inr p # qs)\<rparr>) =
            list_foundation_models
              (w\<lparr>paginator_paginate :=
                   (\<lambda>paginator. ps @ Inr (p\<lparr>modelSummaries := Some (xs @ ys)\<rparr>) # qs)\<rparr>))"
proof -
  have na: "\<not> lifecycle_is_active m" using assms by (rule no_status_inactive)
  then have 1: "for_model acc [m] = Inr acc" by simp
  have 2: "for_model acc (xs @ m # ys) = for_model acc (xs @ ys)"
    using na by (rule for_model_skip)
  have 3: "list_foundation_models (w\<lparr>paginator_paginate := (\<lambda>paginator. ps @ Inr p # qs)\<rparr>) =
            list_foundation_models
              (w\<lparr>paginator_paginate :=
                   (\<lambda>paginator. ps @ Inr (p\<lparr>modelSummaries := Some (xs @ ys)\<rparr>) # qs)\<rparr>)"
    if "modelSummaries p = Some (xs @ m # ys)"
    unfolding list_foundation_models_def list_try_paginate for_page_skip[OF na that] ..
  from 1 2 3 show ?thesis by blast
qed

theorem missing_lifecycle_excluded_witness:
  "modelLifecycle ((model_entry ''m0'' ''p'' ''ACTIVE'')\<lparr>modelLifecycle := None\<rparr>) = None
   \<and> for_model [] [(model_entry ''m0'' ''p'' ''ACTIVE'')\<lparr>modelLifecycle := None\<rparr>] = Inr []
   \<and> modelLifecycle ((model_entry ''m0'' ''p'' ''ACTIVE'')\<lparr>modelLifecycle := Some \<lparr>status = None\<rparr>\<rparr>)
       = Some \<lparr>status = None\<rparr>
   \<and> for_model [] [(model_entry ''m0'' ''p'' ''ACTIVE'')\<lparr>modelLifecycle := Some \<lparr>status = None\<rparr>\<rparr>] = Inr []
   \<and> snd (list_foundation_models (stub_world (Inr ''10.0.0.1'')
        [Inr \<lparr>modelSummaries = Some
           [(model_entry ''m0'' ''p'' ''ACTIVE'')\<lparr>modelLifecycle := None\<rparr>,
            model_entry ''m1'' ''p'' ''ACTIVE'']\<rparr>]))
       = Inr [\<lparr>modelId = ''m1'', provider = ''p'', inputModalities = [], outputModalities = []\<rparr>]"
proof -
  let ?m = "(model_entry ''m0'' ''p'' ''ACTIVE'')\<lparr>modelLifecycle := None\<rparr>"
  let ?n = "(model_entry ''m0'' ''p'' ''ACTIVE'')\<lparr>modelLifecycle := Some \<lparr>status = None\<rparr>\<rparr>"
  have 1: "modelLifecycle ?m = None" by simp
  have 2: "modelLifecycle ?n = Some \<lparr>status = None\<rparr>" by simp
  have h1: "modelLifecycle ?m = None \<or> (\<exists>lc. modelLifecycle ?m = Some lc \<and> status lc = None)"
    by simp
  have h2: "modelLifecycle ?n = None \<or> (\<exists>lc. modelLifecycle ?n = Some lc \<and> status lc = None)"
    by simp
  have a: "for_model [] [?m] = Inr []"
    using missing_lifecycle_excluded[OF h1] by blast
  have b: "for_model [] [?n] = Inr []"
    using missing_lifecycle_excluded[OF h2] by blast
  have "for_model [] ([] @ ?m # [model_entry ''m1'' ''p'' ''ACTIVE''])
          = for_model [] ([] @ [model_entry ''m1'' ''p'' ''ACTIVE''])"
    using missing_lifecycle_excluded[OF h1] by blast
  then have "for_page [] [Inr \<lparr>modelSummaries = Some [?m, model_entry ''m1'' ''p'' ''ACTIVE'']\<rparr>]
          = Inr [\<lparr>modelId = ''m1'', provider = ''p'', inputModalities = [], outputModalities = []\<rparr>]"
    by (simp add: lifecycle_is_active_def enabled_entry_def model_entry_def)
  then have c: "snd (list_foundation_models (stub_world (Inr ''10.0.0.1'')
        [Inr \<lparr>modelSummaries = Some [?m, model_entry ''m1'' ''p'' ''ACTIVE'']\<rparr>]))
       = Inr [\<lparr>modelId = ''m1'', provider = ''p'', inputModalities = [], outputModalities = []\<rparr>]"
    by (rule stub_list_Inr)
  from 1 2 a b c show ?thesis by blast
qed

lemma map_filter_concat:
  "map f (filter P (concat xss)) = concat (map (\<lambda>xs. map f (filter P xs)) xss)"
  by (induction xss) auto

text \<open>
  C5. When the call returns, the result is, page after page in the order of the
  pagination, the records of the active entries of the page in their order in the page.
  The modalities of a record are those of the entry, or empty when the entry omits
  them. Two pages, the first with one active entry and the second with one active and
  one inactive entry, all without modalities, give the two records in that order with
  empty modalities.
\<close>

theorem inventory_order_and_defaults:
  "(listed_pages w = Some pages \<and> snd (list_foundation_models w) = Inr ms \<longrightarrow>
      map Inr ms =
        concat (map (\<lambda>p. map enabled_entry (filter lifecycle_is_active (page_models p))) pages))
   \<and> (enabled_entry m = Inr d \<longrightarrow>
        inputModalities d = (case model_summary.inputModalities m of None \<Rightarrow> [] | Some xs \<Rightarrow> xs)
        \<and> outputModalities d = (case model_summary.outputModalities m of None \<Rightarrow> [] | Some xs \<Rightarrow> xs))
   \<and> snd (list_foundation_models (stub_world dns
        [Inr \<lparr>modelSummaries = Some [model_entry a pa ''ACTIVE'']\<rparr>,
         Inr \<lparr>modelSummaries = Some [model_entry b pb ''ACTIVE'', model_entry c pc ''LEGACY'']\<rparr>]))
       = Inr [\<lparr>modelId = a, provider = pa, inputModalities = [], outputModalities = []\<rparr>,
              \<lparr>modelId = b, provider = pb, inputModalities = [], outputModalities = []\<rparr>]"
proof (intro conjI impI)
  assume "listed_pages w = Some pages \<and> snd (list_foundation_models w) = Inr ms"
  then have "map enabled_entry (filter lifecycle_is_active (all_models pages)) = map Inr ms"
    using list_result_models(2) by blast
  then show "map Inr ms =
        concat (map (\<lambda>p. map enabled_entry (filter lifecycle_is_active (page_models p))) pages)"
    by (simp add: all_models_def map_filter_concat o_def)
next
  assume "enabled_entry m = Inr d"
  then show "inputModalities d = (case model_summary.inputModalities m of None \<Rightarrow> [] | Some xs \<Rightarrow> xs)"
    by (auto simp: enabled_entry_def split: option.splits)
next
  assume "enabled_entry m = Inr d"
  then show "outputModalities d = (case model_summary.outputModalities m of None \<Rightarrow> [] | Some xs \<Rightarrow> xs)"
    by (auto simp: enabled_entry_def split: option.splits)
next
  show "snd (list_foundation_models (stub_world dns
        [Inr \<lparr>modelSummaries = Some [model_entry a pa ''ACTIVE'']\<rparr>,
         Inr \<lparr>modelSummaries = Some [model_entry b pb ''ACTIVE'', model_entry c pc ''LEGACY'']\<rparr>]))
       = Inr [\<lparr>modelId = a, provider = pa, inputModalities = [], outputModalities = []\<rparr>,
              \<lparr>modelId = b, provider = pb, inputModalities = [], outputModalities = []\<rparr>]"
    by (rule stub_list_Inr) (simp add: lifecycle_is_active_def enabled_entry_def model_entry_def)
qed

theorem inventory_order_and_defaults_witness:
  "listed_pages (stub_world (Inr ''10.0.0.1'')
        [Inr \<lparr>modelSummaries = Some [model_entry ''a'' ''p'' ''ACTIVE'']\<rparr>,
         Inr \<lparr>modelSummaries = Some [model_entry ''b'' ''q'' ''ACTIVE'', model_entry ''c'' ''r'' ''LEGACY'']\<rparr>])
     = Some [Inr \<lparr>modelSummaries = Some [model_entry ''a'' ''p'' ''ACTIVE'']\<rparr>,
         Inr \<lparr>modelSummaries = Some [model_entry ''b'' ''q'' ''ACTIVE'', model_entry ''c'' ''r'' ''LEGACY'']\<rparr>]
   \<and> snd (list_foundation_models (stub_world (Inr ''10.0.0.1'')
        [Inr \<lparr>modelSummaries = Some [model_entry ''a'' ''p'' ''ACTIVE'']\<rparr>,
         Inr \<lparr>modelSummaries = Some [model_entry ''b'' ''q'' ''ACTIVE'', model_entry ''c'' ''r'' ''LEGACY'']\<rparr>]))
     = Inr [\<lparr>modelId = ''a'', provider = ''p'', inputModalities = [], outputModalities = []\<rparr>,
            \<lparr>modelId = ''b'', provider = ''q'', inputModalities = [], outputModalities = []\<rparr>]
   \<and> enabled_entry (model_entry ''a'' ''p'' ''ACTIVE'')
     = Inr \<lparr>modelId = ''a'', provider = ''p'', inputModalities = [], outputModalities = []\<rparr>
   \<and> map Inr [\<lparr>modelId = ''a'', provider = ''p'', inputModalities = [], outputModalities = []\<rparr>,
            \<lparr>modelId = ''b'', provider = ''q'', inputModalities = [], outputModalities = []\<rparr>]
     = concat (map (\<lambda>p. map enabled_entry (filter lifecycle_is_active (page_models p)))
        [Inr \<lparr>modelSummaries = Some [model_entry ''a'' ''p'' ''ACTIVE'']\<rparr>,
         Inr \<lparr>modelSummaries = Some [model_entry ''b'' ''q'' ''ACTIVE'', model_entry ''c'' ''r'' ''LEGACY'']\<rparr>])"
proof -
  let ?ps = "[Inr \<lparr>modelSummaries = Some [model_entry ''a'' ''p'' ''ACTIVE'']\<rparr>,
         Inr \<lparr>modelSummaries = Some [model_entry ''b'' ''q'' ''ACTIVE'', model_entry ''c'' ''r'' ''LEGACY'']\<rparr>]"
  let ?w = "stub_world (Inr ''10.0.0.1'') ?ps"
  let ?ms = "[\<lparr>modelId = ''a'', provider = ''p'', inputModalities = [], outputModalities = []\<rparr>,
            \<lparr>modelId = ''b'', provider = ''q'', inputModalities = [], outputModalities = []\<rparr>]"
  note t = inventory_order_and_defaults[of ?w ?ps ?ms "model_entry ''a'' ''p'' ''ACTIVE''"
      "\<lparr>modelId = ''a'', provider = ''p'', inputModalities = [], outputModalities = []\<rparr>"
      "Inr ''10.0.0.1''" "''a''" "''p''" "''b''" "''q''" "''c''" "''r''"]
  have 1: "listed_pages ?w = Some ?ps" by (rule stub_listed_pages)
  have 2: "snd (list_foundation_models ?w) = Inr ?ms" using t by blast
  have 3: "enabled_entry (model_entry ''a'' ''p'' ''ACTIVE'')
     = Inr \<lparr>modelId = ''a'', provider = ''p'', inputModalities = [], outputModalities = []\<rparr>"
    by (simp add: enabled_entry_def model_entry_def)
  from 1 2 3 t show ?thesis by blast
qed

lemma list_try_pages:
  "listed_pages w = Some pages \<Longrightarrow> snd (list_foundation_models_try w) = for_page [] pages"
  by (auto simp: list_try_result listed_pages_def split: sum.splits)

lemma list_Inl_other:
  assumes "snd (list_foundation_models_try w) = Inl e" "\<forall>r. e \<noteq> ClientError r"
  shows "snd (list_foundation_models w) = Inl e"
  using assms by (cases "list_foundation_models_try w"; cases e) (simp_all add: list_foundation_models_def)

lemma list_Inl_try:
  "snd (list_foundation_models_try w) = Inl e \<Longrightarrow> \<exists>e'. snd (list_foundation_models w) = Inl e'"
  by (cases "snd (list_foundation_models w)") (simp_all add: list_Inr_try)

text \<open>
  C7. When the body of the call raises a \<open>ClientError\<close> that carries a code and a message,
  the call logs \<open>AWS Error: <code> - <message>\<close> and raises the same error. When it raises
  any exception that is no \<open>ClientError\<close>, the call logs it and raises the same
  exception. A failed page fetch makes the body raise the fetch's error, whatever the
  pages before it held. A result is returned only when every page was fetched, and is
  then the complete filtered list.
\<close>

theorem inventory_error_handling:
  "(list_foundation_models_try w = (l, Inl (ClientError (Some err)))
      \<and> map_of err ''Code'' = Some code \<and> map_of err ''Message'' = Some msg \<longrightarrow>
    list_foundation_models w =
      (l @ [(ERROR, Text (''AWS Error: '' @ code @ '' - '' @ msg))], Inl (ClientError (Some err))))
   \<and> (list_foundation_models_try w = (l, Inl e) \<and> (\<forall>r. e \<noteq> ClientError r) \<longrightarrow>
        list_foundation_models w = (l @ [(ERROR, TextExn ''Unexpected error: '' e)], Inl e))
   \<and> (listed_pages w = Some (ps @ Inl e # qs) \<and> for_page [] ps = Inr acc \<longrightarrow>
        snd (list_foundation_models_try w) = Inl e)
   \<and> (snd (list_foundation_models w) = Inr ms \<longrightarrow>
        (\<exists>pages. listed_pages w = Some pages \<and> list_all page_fetched pages
           \<and> map Inr ms = map enabled_entry (filter lifecycle_is_active (all_models pages))))"
proof (intro conjI impI)
  assume "list_foundation_models_try w = (l, Inl (ClientError (Some err)))
      \<and> map_of err ''Code'' = Some code \<and> map_of err ''Message'' = Some msg"
  then show "list_foundation_models w =
      (l @ [(ERROR, Text (''AWS Error: '' @ code @ '' - '' @ msg))], Inl (ClientError (Some err)))"
    by (simp add: list_foundation_models_def except_ClientError_def)
next
  assume "list_foundation_models_try w = (l, Inl e) \<and> (\<forall>r. e \<noteq> ClientError r)"
  then show "list_foundation_models w = (l @ [(ERROR, TextExn ''Unexpected error: '' e)], Inl e)"
    by (cases e) (simp_all add: list_foundation_models_def)
next
  assume "listed_pages w = Some (ps @ Inl e # qs) \<and> for_page [] ps = Inr acc"
  then show "snd (list_foundation_models_try w) = Inl e"
    by (simp add: list_try_pages for_page_append)
next
  assume "snd (list_foundation_models w) = Inr ms"
  then obtain pages where p: "listed_pages w = Some pages" "for_page [] pages = Inr ms"
    by (auto simp: list_Inr_pages)
  then have "list_all page_fetched pages
     \<and> map Inr ms = map enabled_entry (filter lifecycle_is_active (all_models pages))"
    by (auto simp: for_page_Inr)
  with p(1) show "\<exists>pages. listed_pages w = Some pages \<and> list_all page_fetched pages
           \<and> map Inr ms = map enabled_entry (filter lifecycle_is_active (all_models pages))"
    by blast
qed

theorem inventory_error_handling_witness:
  "list_foundation_models_try (stub_world (Inr ''10.0.0.1'')
      [Inr \<lparr>modelSummaries = Some [model_entry ''m1'' ''p'' ''ACTIVE'']\<rparr>,
       Inl (ClientError (Some [(''Code'', ''ThrottlingException''), (''Message'', ''Rate exceeded'')]))])
     = ([(INFO, Text ''Verified private connection. Endpoint bedrock.us-east-1.amazonaws.com resolved to private IP: 10.0.0.1'')],
        Inl (ClientError (Some [(''Code'', ''ThrottlingException''), (''Message'', ''Rate exceeded'')])))
   \<and> list_foundation_models (stub_world (Inr ''10.0.0.1'')
      [Inr \<lparr>modelSummaries = Some [model_entry ''m1'' ''p'' ''ACTIVE'']\<rparr>,
       Inl (ClientError (Some [(''Code'', ''ThrottlingException''), (''Message'', ''Rate exceeded'')]))])
     = ([(INFO, Text ''Verified private connection. Endpoint bedrock.us-east-1.amazonaws.com resolved to private IP: 10.0.0.1''),
         (ERROR, Text ''AWS Error: ThrottlingException - Rate exceeded'')],
        Inl (ClientError (Some [(''Code'', ''ThrottlingException''), (''Message'', ''Rate exceeded'')])))
   \<and> list_foundation_models (stub_world (Inr ''10.0.0.1'')
      [Inr \<lparr>modelSummaries = Some [model_entry ''m1'' ''p'' ''ACTIVE'']\<rparr>,
       Inl (OtherException ''EndpointConnectionError'')])
     = ([(INFO, Text ''Verified private connection. Endpoint bedrock.us-east-1.amazonaws.com resolved to private IP: 10.0.0.1''),
         (ERROR, TextExn ''Unexpected error: '' (OtherException ''EndpointConnectionError''))],
        Inl (OtherException ''EndpointConnectionError''))
   \<and> snd (list_foundation_models (stub_world (Inr ''10.0.0.1'')
      [Inr \<lparr>modelSummaries = Some [model_entry ''m1'' ''p'' ''ACTIVE'']\<rparr>]))
     = Inr [\<lparr>modelId = ''m1'', provider = ''p'', inputModalities = [], outputModalities = []\<rparr>]
   \<and> (\<exists>pages. listed_pages (stub_world (Inr ''10.0.0.1'')
          [Inr \<lparr>modelSummaries = Some [model_entry ''m1'' ''p'' ''ACTIVE'']\<rparr>]) = Some pages
        \<and> list_all page_fetched pages
        \<and> map Inr [\<lparr>modelId = ''m1'', provider = ''p'', inputModalities = [], outputModalities = []\<rparr>]
            = map enabled_entry (filter lifecycle_is_active (all_models pages)))"
proof -
  let ?l = "[(INFO, Text ''Verified private connection. Endpoint bedrock.us-east-1.amazonaws.com resolved to private IP: 10.0.0.1'')]"
  let ?err = "[(''Code'', ''ThrottlingException''), (''Message'', ''Rate exceeded'')]"
  let ?p1 = "Inr \<lparr>modelSummaries = Some [model_entry ''m1'' ''p'' ''ACTIVE'']\<rparr> :: exn + page"
  let ?w1 = "stub_world (Inr ''10.0.0.1'') [?p1, Inl (ClientError (Some ?err))]"
  let ?w2 = "stub_world (Inr ''10.0.0.1'') [?p1, Inl (OtherException ''EndpointConnectionError'')]"
  let ?w3 = "stub_world (Inr ''10.0.0.1'') [?p1]"
  let ?d = "\<lparr>modelId = ''m1'', provider = ''p'', inputModalities = [], outputModalities = []\<rparr>"
  have 1: "list_foundation_models_try ?w1 = (?l, Inl (ClientError (Some ?err)))"
    by (simp add: list_foundation_models_try_def get_bedrock_client_def get_bedrock_client_try_def
        verify_private_connection_def verify_private_connection_try_def stub_world_def
        is_private_ip_10 bedrock_endpoint_def lifecycle_is_active_def enabled_entry_def
        model_entry_def)
  have 2: "list_foundation_models_try ?w2 = (?l, Inl (OtherException ''EndpointConnectionError''))"
    by (simp add: list_foundation_models_try_def get_bedrock_client_def get_bedrock_client_try_def
        verify_private_connection_def verify_private_connection_try_def stub_world_def
        is_private_ip_10 bedrock_endpoint_def lifecycle_is_active_def enabled_entry_def
        model_entry_def)
  have 3: "snd (list_foundation_models ?w3) = Inr [?d]"
    by (rule stub_list_Inr) (simp add: lifecycle_is_active_def enabled_entry_def model_entry_def)
  have c: "map_of ?err ''Code'' = Some ''ThrottlingException''
      \<and> map_of ?err ''Message'' = Some ''Rate exceeded''" by simp
  have n: "\<forall>r. OtherException ''EndpointConnectionError'' \<noteq> ClientError r" by simp
  have a: "list_foundation_models ?w1 =
      (?l @ [(ERROR, Text (''AWS Error: '' @ ''ThrottlingException'' @ '' - '' @ ''Rate exceeded''))],
       Inl (ClientError (Some ?err)))"
    using inventory_error_handling[of ?w1 ?l ?err "''ThrottlingException''" "''Rate exceeded''"] 1 c
    by blast
  have b: "list_foundation_models ?w2 =
      (?l @ [(ERROR, TextExn ''Unexpected error: '' (OtherException ''EndpointConnectionError''))],
       Inl (OtherException ''EndpointConnectionError''))"
    using inventory_error_handling[of ?w2 ?l _ _ _ "OtherException ''EndpointConnectionError''"] 2 n
    by blast
  have d: "\<exists>pages. listed_pages ?w3 = Some pages \<and> list_all page_fetched pages
        \<and> map Inr [?d] = map enabled_entry (filter lifecycle_is_active (all_models pages))"
    using inventory_error_handling[of ?w3 _ _ _ _ _ _ _ _ "[?d]"] 3 by blast
  from 1 a b 3 d show ?thesis by simp
qed

lemma missing_identifier_KeyError:
  assumes "model_summary.modelId m = None \<or> providerName m = None"
  shows "enabled_entry m =
           Inl (KeyError (if model_summary.modelId m = None then ''modelId'' else ''providerName''))"
  using assms by (auto simp: enabled_entry_def split: option.splits)

text \<open>
  C10. An entry with status \<open>ACTIVE\<close> that lacks \<open>modelId\<close> or \<open>providerName\<close> raises
  \<open>KeyError\<close>: in the loop, when the entries before it went through; from the whole call,
  when the pages before it went through as well. Wherever such an entry stands in the
  pages, the call returns no list but raises.
\<close>

theorem active_entry_without_identifier_fails:
  assumes "lifecycle_status m = Some ''ACTIVE''"
    and "model_summary.modelId m = None \<or> providerName m = None"
  shows "(for_model acc xs = Inr acc' \<longrightarrow>
            for_model acc (xs @ m # ys) =
              Inl (KeyError (if model_summary.modelId m = None then ''modelId'' else ''providerName'')))
       \<and> (listed_pages w = Some (ps @ Inr p # qs) \<and> for_page [] ps = Inr acc
            \<and> modelSummaries p = Some (xs @ m # ys) \<and> for_model acc xs = Inr acc' \<longrightarrow>
          snd (list_foundation_models w) =
            Inl (KeyError (if model_summary.modelId m = None then ''modelId'' else ''providerName'')))
       \<and> (listed_pages w = Some pages \<and> Inr p \<in> set pages \<and> modelSummaries p = Some models
            \<and> m \<in> set models \<longrightarrow>
          (\<exists>e. snd (list_foundation_models w) = Inl e))"
proof -
  let ?e = "KeyError (if model_summary.modelId m = None then ''modelId'' else ''providerName'')"
  have act: "lifecycle_is_active m" using assms(1) by (simp add: lifecycle_is_active_iff)
  have ent: "enabled_entry m = Inl ?e" using assms(2) by (rule missing_identifier_KeyError)
  have 1: "for_model acc (xs @ m # ys) = Inl ?e" if "for_model acc xs = Inr acc'" for acc acc'
    using that act ent by (simp add: for_model_append)
  have 2: "snd (list_foundation_models w) = Inl ?e"
    if h: "listed_pages w = Some (ps @ Inr p # qs) \<and> for_page [] ps = Inr acc
            \<and> modelSummaries p = Some (xs @ m # ys) \<and> for_model acc xs = Inr acc'"
  proof -
    have "for_page [] (ps @ Inr p # qs) = Inl ?e"
      using h 1[of acc acc'] by (simp add: for_page_append)
    then have "snd (list_foundation_models_try w) = Inl ?e"
      using h by (simp add: list_try_pages)
    then show ?thesis by (rule list_Inl_other) simp
  qed
  have 3: "\<exists>e. snd (list_foundation_models w) = Inl e"
    if h: "listed_pages w = Some pages \<and> Inr p \<in> set pages \<and> modelSummaries p = Some models
            \<and> m \<in> set models"
  proof (cases "snd (list_foundation_models w)")
    case (Inl e)
    then show ?thesis by blast
  next
    case (Inr ms)
    with h have "map enabled_entry (filter lifecycle_is_active (all_models pages)) = map Inr ms"
      using list_result_models(2) by blast
    moreover have "m \<in> set (filter lifecycle_is_active (all_models pages))"
      using h act by (force simp: all_models_def)
    ultimately have "enabled_entry m \<in> set (map Inr ms)"
      by (metis image_eqI set_map)
    with ent show ?thesis by auto
  qed
  from 1 2 3 show ?thesis by blast
qed

theorem active_entry_without_identifier_fails_witness:
  "lifecycle_status ((model_entry ''m2'' ''p'' ''ACTIVE'')\<lparr>providerName := None\<rparr>) = Some ''ACTIVE''
   \<and> providerName ((model_entry ''m2'' ''p'' ''ACTIVE'')\<lparr>providerName := None\<rparr>) = None
   \<and> for_model [] [model_entry ''m1'' ''p'' ''ACTIVE''] 
       = Inr [\<lparr>modelId = ''m1'', provider = ''p'', inputModalities = [], outputModalities = []\<rparr>]
   \<and> snd (list_foundation_models (stub_world (Inr ''10.0.0.1'')
        [Inr \<lparr>modelSummaries = Some
           [model_entry ''m1'' ''p'' ''ACTIVE'',
            (model_entry ''m2'' ''p'' ''ACTIVE'')\<lparr>providerName := None\<rparr>]\<rparr>]))
       = Inl (KeyError ''providerName'')"
proof -
  let ?m = "(model_entry ''m2'' ''p'' ''ACTIVE'')\<lparr>providerName := None\<rparr>"
  let ?p = "\<lparr>modelSummaries = Some [model_entry ''m1'' ''p'' ''ACTIVE'', ?m]\<rparr>"
  let ?w = "stub_world (Inr ''10.0.0.1'') [Inr ?p]"
  let ?d = "\<lparr>modelId = ''m1'', provider = ''p'', inputModalities = [], outputModalities = []\<rparr>"
  have 1: "lifecycle_status ?m = Some ''ACTIVE''"
    by (simp add: lifecycle_status_def model_entry_def)
  have 2: "providerName ?m = None" by simp
  have h2: "model_summary.modelId ?m = None \<or> providerName ?m = None" by simp
  have 3: "for_model [] [model_entry ''m1'' ''p'' ''ACTIVE''] = Inr [?d]"
    by (simp add: lifecycle_is_active_def enabled_entry_def model_entry_def)
  have 4: "listed_pages ?w = Some ([] @ Inr ?p # []) \<and> for_page [] [] = Inr []
            \<and> modelSummaries ?p = Some ([model_entry ''m1'' ''p'' ''ACTIVE''] @ ?m # [])
            \<and> for_model [] [model_entry ''m1'' ''p'' ''ACTIVE''] = Inr [?d]"
    using 3 by (simp add: stub_listed_pages)
  have "snd (list_foundation_models ?w) =
          Inl (KeyError (if model_summary.modelId ?m = None then ''modelId'' else ''providerName''))"
    using active_entry_without_identifier_fails[OF 1 h2, of "[]" "[model_entry ''m1'' ''p'' ''ACTIVE'']"
        "[?d]" "[]" ?w "[]" ?p "[]"] 4 by blast
  then have 5: "snd (list_foundation_models ?w) = Inl (KeyError ''providerName'')"
    by (simp add: model_entry_def)
  from 1 2 3 5 show ?thesis by blast
qed

end
